theory Spec2Isabelle
  imports Complex_Main
begin

section \<open>Teemake: a shallow embedding of \<^verbatim>\<open>teemake.py\<close>\<close>

text \<open>
  The program is a sequential wizard around external processes.  The model makes every
  interaction with the outside an explicit argument: the lines typed by the user, the
  behaviour of a launched process, the answer of the disk-usage query.  Python strings
  are modelled as HOL strings; the string methods below act on ASCII characters as
  Python does and leave all other characters alone.
\<close>

subsection \<open>Python string methods\<close>

definition py_isspace :: "char \<Rightarrow> bool" where
  \<comment> \<open>the ASCII characters for which \<^verbatim>\<open>str.isspace\<close> holds: TAB, LF, VT, FF, CR, FS, GS, RS, US, SPACE\<close>
  "py_isspace c = (let n = (of_char c :: nat) in (9 \<le> n \<and> n \<le> 13) \<or> (28 \<le> n \<and> n \<le> 32))"

definition py_strip :: "string \<Rightarrow> string" where
  "py_strip s = rev (dropWhile py_isspace (rev (dropWhile py_isspace s)))"

fun split_ws :: "string \<Rightarrow> string \<Rightarrow> string list" where
  "split_ws w [] = (if w = [] then [] else [w])"
| "split_ws w (c # cs) =
     (if py_isspace c then (if w = [] then split_ws [] cs else w # split_ws [] cs)
      else split_ws (w @ [c]) cs)"

definition py_split :: "string \<Rightarrow> string list" where
  \<comment> \<open>\<^verbatim>\<open>s.split()\<close>: the maximal runs of non-whitespace characters\<close>
  "py_split s = split_ws [] s"

definition upper_char :: "char \<Rightarrow> char" where
  "upper_char c = (let n = (of_char c :: nat) in if 97 \<le> n \<and> n \<le> 122 then char_of (n - 32) else c)"

definition lower_char :: "char \<Rightarrow> char" where
  "lower_char c = (let n = (of_char c :: nat) in if 65 \<le> n \<and> n \<le> 90 then char_of (n + 32) else c)"

definition py_upper :: "string \<Rightarrow> string" where
  "py_upper s = map upper_char s"

definition py_lower :: "string \<Rightarrow> string" where
  "py_lower s = map lower_char s"

definition digit_char :: "char \<Rightarrow> bool" where
  "digit_char c = (let n = (of_char c :: nat) in 48 \<le> n \<and> n \<le> 57)"

definition py_isdigit :: "string \<Rightarrow> bool" where
  \<comment> \<open>\<^verbatim>\<open>s.isdigit()\<close>: non-empty and digits only\<close>
  "py_isdigit s = (s \<noteq> [] \<and> list_all digit_char s)"

definition py_int :: "string \<Rightarrow> nat" where
  \<comment> \<open>\<^verbatim>\<open>int(s)\<close> on a string of decimal digits\<close>
  "py_int s = foldl (\<lambda>acc c. 10 * acc + (of_char c - 48)) 0 s"

fun py_contains :: "string \<Rightarrow> string \<Rightarrow> bool" where
  \<comment> \<open>\<^verbatim>\<open>sub in s\<close>\<close>
  "py_contains sub [] = (sub = [])"
| "py_contains sub (c # cs) = (take (length sub) (c # cs) = sub \<or> py_contains sub cs)"

fun split_eq :: "string \<Rightarrow> string \<times> string" where
  \<comment> \<open>\<^verbatim>\<open>s.split('=', 1)\<close> for a string that contains \<^verbatim>\<open>=\<close>: the text before and after the first one\<close>
  "split_eq s = (takeWhile (\<lambda>c. c \<noteq> CHR ''='') s, drop 1 (dropWhile (\<lambda>c. c \<noteq> CHR ''='') s))"

definition dict_get :: "('k \<rightharpoonup> 'v) \<Rightarrow> 'k \<Rightarrow> 'v \<Rightarrow> 'v" where
  \<comment> \<open>\<^verbatim>\<open>d.get(k, default)\<close>\<close>
  "dict_get d k dflt = (case d k of None \<Rightarrow> dflt | Some v \<Rightarrow> v)"

subsection \<open>Exceptions and results\<close>

datatype py_exception = EOFError | TimeoutExpired | Exception string

fun exception_str :: "py_exception \<Rightarrow> string" where
  \<comment> \<open>\<^verbatim>\<open>str(e)\<close>\<close>
  "exception_str (Exception msg) = msg"
| "exception_str EOFError = ''EOF when reading a line''"
| "exception_str TimeoutExpired = ''Command timed out''"

datatype 'a outcome = Returns 'a | Raises py_exception | Hangs

subsection \<open>Disk space check\<close>

definition MIN_DISK_SPACE_MB :: real where
  "MIN_DISK_SPACE_MB = 2000"

definition check_disk_space :: "py_exception + nat \<Rightarrow> bool" where
  \<comment> \<open>The argument is what \<^verbatim>\<open>shutil.disk_usage(path)\<close> does: it raises, or it reports the free
      bytes.  Python's \<^verbatim>\<open>/\<close> is float division; dividing an integer by \<open>2^20\<close> is exact below
      \<open>2^53\<close> and monotone above, so the comparison with 2000 is that of the real quotient.\<close>
  "check_disk_space usage =
     (case usage of
        Inl e \<Rightarrow> True
      | Inr free \<Rightarrow>
          (let available_mb = real free / (1024 * 1024)
           in if available_mb < MIN_DISK_SPACE_MB then False else True))"

subsection \<open>Command runner\<close>

datatype process =
    Exits nat int string string
  | Never_exits
  | Launch_fails string

text \<open>
  A launched process either cannot be started (\<open>Launch_fails msg\<close>), or runs for a number
  of seconds and exits with a return code and its two output streams, or never exits.
  \<open>subprocess_run\<close> is \<^verbatim>\<open>subprocess.run\<close> with its optional \<^verbatim>\<open>timeout\<close>.
\<close>

definition subprocess_run :: "nat option \<Rightarrow> process \<Rightarrow> (int \<times> string \<times> string) outcome" where
  "subprocess_run timeout p =
     (case p of
        Launch_fails msg \<Rightarrow> Raises (Exception msg)
      | Exits secs rc out err \<Rightarrow>
          (case timeout of
             None \<Rightarrow> Returns (rc, out, err)
           | Some t \<Rightarrow> if secs \<le> t then Returns (rc, out, err) else Raises TimeoutExpired)
      | Never_exits \<Rightarrow>
          (case timeout of None \<Rightarrow> Hangs | Some t \<Rightarrow> Raises TimeoutExpired))"

definition run_command :: "bool \<Rightarrow> process \<Rightarrow> (bool \<times> string \<times> string) outcome" where
  \<comment> \<open>\<open>verbose\<close> is \<^verbatim>\<open>self.verbose\<close>; the process stands for the command, its \<^verbatim>\<open>shell\<close> and \<^verbatim>\<open>cwd\<close>\<close>
  "run_command verbose p =
     (if verbose then
        (case subprocess_run None p of
           Returns (rc, out, err) \<Rightarrow> Returns (rc = 0, out, err)
         | Raises e \<Rightarrow> Raises e
         | Hangs \<Rightarrow> Hangs)
      else
        (case subprocess_run (Some 3600) p of
           Returns (rc, out, err) \<Rightarrow>
             (if rc = 0 then Returns (True, out, err) else Returns (False, out, err))
         | Raises e \<Rightarrow>
             (if e = TimeoutExpired then Returns (False, [], ''Command timed out after 1 hour'')
              else Returns (False, [], exception_str e))
         | Hangs \<Rightarrow> Hangs))"

definition success_of :: "(bool \<times> string \<times> string) outcome \<Rightarrow> bool outcome" where
  \<comment> \<open>\<^verbatim>\<open>success, _, _ = self.run_command(...)\<close>\<close>
  "success_of r = (case r of Returns (success, _, _) \<Rightarrow> Returns success | Raises e \<Rightarrow> Raises e | Hangs \<Rightarrow> Hangs)"

subsection \<open>Server name validation\<close>

definition name_char :: "char \<Rightarrow> bool" where
  \<comment> \<open>the character class \<^verbatim>\<open>[a-zA-Z0-9_-]\<close>\<close>
  "name_char c = (let n = (of_char c :: nat) in
     (97 \<le> n \<and> n \<le> 122) \<or> (65 \<le> n \<and> n \<le> 90) \<or> (48 \<le> n \<and> n \<le> 57)
     \<or> c = CHR ''_'' \<or> c = CHR ''-'')"

definition re_match_name :: "string \<Rightarrow> bool" where
  \<comment> \<open>\<^verbatim>\<open>re.match(r'^[a-zA-Z0-9_-]+$', name)\<close> finds a match.  The greedy \<^verbatim>\<open>+\<close> takes the
      longest run of class characters, which must not be empty; \<^verbatim>\<open>$\<close> then matches at the
      end of the string or just before a newline that ends the string.  Giving characters
      back cannot help: what follows would be a class character.\<close>
  "re_match_name name =
     (let body = takeWhile name_char name; rest = dropWhile name_char name
      in body \<noteq> [] \<and> (rest = [] \<or> rest = [CHR 0x0A]))"

definition validate_server_name :: "string \<Rightarrow> bool" where
  "validate_server_name name =
     (if py_contains ''..'' name \<or> py_contains ''/'' name \<or> py_contains [CHR 0x5C] name then False
      else if \<not> re_match_name name then False
      else if length name < 1 \<or> length name > 64 then False
      else True)"

subsection \<open>Catalogue\<close>

datatype PackageManager = APT | DNF | YUM | PACMAN | ZYPPER | UNKNOWN

fun pm_value :: "PackageManager \<Rightarrow> string" where
  "pm_value APT = ''apt-get''"
| "pm_value DNF = ''dnf''"
| "pm_value YUM = ''yum''"
| "pm_value PACMAN = ''pacman''"
| "pm_value ZYPPER = ''zypper''"
| "pm_value UNKNOWN = ''unknown''"

text \<open>
  The field \<^verbatim>\<open>name\<close> of the two dataclasses is \<open>mode_name\<close> in \<open>GameMode\<close> and \<open>opt_name\<close> in
  \<open>BuildOption\<close>; \<^verbatim>\<open>default\<close> of \<open>ConfigSetting\<close> is \<open>default_value\<close>.
\<close>

record GameMode =
  mode_name :: string
  url :: string
  dependencies :: "string \<rightharpoonup> string"
  build_opts :: "string list"

record BuildOption =
  opt_name :: string
  description :: string
  current_value :: string
  option_type :: string

record ConfigSetting =
  key :: string
  prompt :: string
  default_value :: string
  setting_description :: string

definition build_option :: "string \<Rightarrow> string \<Rightarrow> string \<Rightarrow> string \<Rightarrow> BuildOption" where
  "build_option n d v t = \<lparr>opt_name = n, description = d, current_value = v, option_type = t\<rparr>"

definition config_setting :: "string \<Rightarrow> string \<Rightarrow> string \<Rightarrow> string \<Rightarrow> ConfigSetting" where
  "config_setting k p v d = \<lparr>key = k, prompt = p, default_value = v, setting_description = d\<rparr>"

definition Teeworlds :: GameMode where
  "Teeworlds = \<lparr>mode_name = ''Teeworlds'',
     url = ''https://github.com/teeworlds/teeworlds.git'',
     dependencies = map_of
       [(''apt-get'', ''libpnglite-dev libwavpack-dev''),
        (''dnf'', ''libpng-devel wavpack-devel''),
        (''yum'', ''libpng-devel wavpack-devel''),
        (''pacman'', ''libpng wavpack''),
        (''zypper'', ''libpng16-devel wavpack-devel'')],
     build_opts = [''cmake'', ''../source/'', ''-DCLIENT=OFF'', ''-DSERVER=ON'']\<rparr>"

definition DDNet :: GameMode where
  "DDNet = \<lparr>mode_name = ''DDNet'',
     url = ''https://github.com/ddnet/ddnet.git'',
     dependencies = map_of
       [(''apt-get'', ''libvulkan-dev libsqlite3-dev libcurl4-openssl-dev''),
        (''dnf'', ''vulkan-devel sqlite-devel libcurl-devel''),
        (''yum'', ''vulkan-devel sqlite-devel libcurl-devel''),
        (''pacman'', ''vulkan-icd-loader sqlite curl''),
        (''zypper'', ''vulkan-devel sqlite3-devel libcurl-devel'')],
     build_opts = [''cmake'', ''../source/'', ''-DCLIENT=OFF'', ''-DSERVER=ON'']\<rparr>"

definition zCatch :: GameMode where
  "zCatch = \<lparr>mode_name = ''zCatch'',
     url = ''https://github.com/jxsl13/zcatch.git'',
     dependencies = map_of
       [(''apt-get'', ''libcurl4-openssl-dev''),
        (''dnf'', ''libcurl-devel''),
        (''yum'', ''libcurl-devel''),
        (''pacman'', ''curl''),
        (''zypper'', ''libcurl-devel'')],
     build_opts = [''cmake'', ''../source/'', ''-DCLIENT=OFF'', ''-DSERVER=ON'']\<rparr>"

definition GAME_MODES :: "GameMode list" where
  "GAME_MODES = [Teeworlds, DDNet, zCatch]"

definition Teeworlds_options :: "BuildOption list" where
  "Teeworlds_options =
     [build_option ''-DCLIENT'' ''Build client'' ''OFF'' ''boolean'',
      build_option ''-DSERVER'' ''Build server'' ''ON'' ''boolean'',
      build_option ''-DMASTERSERVER'' ''Build masterserver'' ''OFF'' ''boolean'',
      build_option ''-DTOOLS'' ''Build tools'' ''OFF'' ''boolean'',
      build_option ''-DDEV'' ''Development mode'' ''OFF'' ''boolean'',
      build_option ''-GNinja'' ''Use Ninja build system (faster)'' ''OFF'' ''generator'']"

definition DDNet_options :: "BuildOption list" where
  "DDNet_options =
     [build_option ''-DCLIENT'' ''Build client'' ''OFF'' ''boolean'',
      build_option ''-DSERVER'' ''Build server'' ''ON'' ''boolean'',
      build_option ''-DTOOLS'' ''Build tools'' ''OFF'' ''boolean'',
      build_option ''-DMYSQL'' ''Enable MySQL support'' ''OFF'' ''boolean'',
      build_option ''-DWEBSOCKETS'' ''Enable WebSocket support'' ''OFF'' ''boolean'',
      build_option ''-DVIDEORECORDER'' ''Enable video recorder'' ''OFF'' ''boolean'',
      build_option ''-DUPNP'' ''Enable UPnP support'' ''OFF'' ''boolean'',
      build_option ''-DSTEAM'' ''Enable Steam integration'' ''OFF'' ''boolean'',
      build_option ''-DPREFER_BUNDLED_LIBS'' ''Use bundled libraries'' ''OFF'' ''boolean'',
      build_option ''-GNinja'' ''Use Ninja build system (faster)'' ''OFF'' ''generator'']"

definition zCatch_options :: "BuildOption list" where
  "zCatch_options =
     [build_option ''-DCLIENT'' ''Build client'' ''OFF'' ''boolean'',
      build_option ''-DSERVER'' ''Build server'' ''ON'' ''boolean'',
      build_option ''-DTOOLS'' ''Build tools'' ''OFF'' ''boolean'',
      build_option ''-DDEV'' ''Development mode'' ''OFF'' ''boolean'',
      build_option ''-GNinja'' ''Use Ninja build system (faster)'' ''OFF'' ''generator'']"

definition AVAILABLE_BUILD_OPTIONS :: "string \<rightharpoonup> BuildOption list" where
  "AVAILABLE_BUILD_OPTIONS =
     map_of [(''Teeworlds'', Teeworlds_options), (''DDNet'', DDNet_options), (''zCatch'', zCatch_options)]"

definition BASE_DEPS :: "string \<rightharpoonup> string" where
  "BASE_DEPS = map_of
     [(''apt-get'', ''build-essential cmake git python3 libfreetype6-dev libsdl2-dev''),
      (''dnf'', ''gcc gcc-c++ make cmake git python3 freetype-devel SDL2-devel''),
      (''yum'', ''gcc gcc-c++ make cmake git python3 freetype-devel SDL2-devel''),
      (''pacman'', ''base-devel cmake git python freetype2 sdl2''),
      (''zypper'', ''gcc gcc-c++ make cmake git python3 freetype2-devel libSDL2-devel'')]"

definition BASIC_CONFIG_SETTINGS :: "string \<rightharpoonup> ConfigSetting list" where
  "BASIC_CONFIG_SETTINGS = map_of
     [(''Teeworlds'',
        [config_setting ''sv_name'' ''Server Name'' ''My Teeworlds Server'' ''The name of your server'',
         config_setting ''sv_port'' ''Server Port'' ''8303'' ''Port number (default: 8303)'',
         config_setting ''sv_max_clients'' ''Maximum Players'' ''16'' ''Maximum number of players'',
         config_setting ''sv_gametype'' ''Game Type'' ''dm'' ''Game type (dm, tdm, ctf)'']),
      (''DDNet'',
        [config_setting ''sv_name'' ''Server Name'' ''My DDNet Server'' ''The name of your server'',
         config_setting ''sv_port'' ''Server Port'' ''8303'' ''Port number (default: 8303)'',
         config_setting ''sv_max_clients'' ''Maximum Players'' ''64'' ''Maximum number of players'',
         config_setting ''sv_gametype'' ''Game Type'' ''DDraceNetwork'' ''Game type'']),
      (''zCatch'',
        [config_setting ''sv_name'' ''Server Name'' ''My zCatch Server'' ''The name of your server'',
         config_setting ''sv_port'' ''Server Port'' ''8303'' ''Port number (default: 8303)'',
         config_setting ''sv_max_clients'' ''Maximum Players'' ''16'' ''Maximum number of players'',
         config_setting ''sv_gametype'' ''Game Type'' ''zCatch'' ''Game type''])]"

subsection \<open>Build option customization\<close>

text \<open>
  The user's terminal is the list of lines still to be read.  \<^verbatim>\<open>Prompt.ask\<close> takes the next
  line and strips it; every \<^verbatim>\<open>input()\<close> that waits for Enter takes the next line and drops
  it; reading past the last line raises \<open>EOFError\<close>.  One pass of the loop reports how many
  lines its \<^verbatim>\<open>input()\<close> calls take, and the loop drops that many.
\<close>

record custom_state =
  current_options :: "string \<rightharpoonup> string"
  use_ninja :: bool

definition truthy_tokens :: "string list" where
  "truthy_tokens = [''ON'', ''YES'', ''TRUE'', ''1'']"

definition boolean_tokens :: "string list" where
  "boolean_tokens = [''ON'', ''OFF'', ''YES'', ''NO'', ''TRUE'', ''FALSE'', ''1'', ''0'']"

definition apply_value :: "BuildOption \<Rightarrow> string \<Rightarrow> custom_state \<Rightarrow> custom_state option" where
  \<comment> \<open>The branch on \<^verbatim>\<open>opt.option_type\<close>, written twice in the source (selection by number and
      by name) with the same effect on the state; \<open>None\<close> is the rejected boolean value.\<close>
  "apply_value opt val st =
     (if option_type opt = ''generator'' then
        (if py_upper val \<in> set truthy_tokens then
           Some (st\<lparr>current_options := (current_options st)(opt_name opt \<mapsto> ''ON''),
                   use_ninja := (if opt_name opt = ''-GNinja'' then True else use_ninja st)\<rparr>)
         else
           Some (st\<lparr>current_options := (current_options st)(opt_name opt \<mapsto> ''OFF''),
                   use_ninja := (if opt_name opt = ''-GNinja'' then False else use_ninja st)\<rparr>))
      else if option_type opt = ''boolean'' then
        (if py_upper val \<notin> set boolean_tokens then None
         else
           (let normalized = (if py_upper val \<in> set truthy_tokens then ''ON'' else ''OFF'')
            in Some (st\<lparr>current_options := (current_options st)(opt_name opt \<mapsto> normalized)\<rparr>)))
      else Some (st\<lparr>current_options := (current_options st)(opt_name opt \<mapsto> val)\<rparr>))"

definition select_by_index :: "BuildOption list \<Rightarrow> string \<Rightarrow> string \<Rightarrow> custom_state \<Rightarrow> custom_state \<times> nat" where
  \<comment> \<open>the result's second part counts the \<^verbatim>\<open>input()\<close> calls\<close>
  "select_by_index available_options option_part val st =
     (let idx = py_int option_part in
      if 1 \<le> idx \<and> idx \<le> length available_options then
        (case apply_value (available_options ! (idx - 1)) val st of
           None \<Rightarrow> (st, 1)
         | Some st' \<Rightarrow> (st', 0))
      else (st, 1))"

fun select_by_name :: "BuildOption list \<Rightarrow> string \<Rightarrow> string \<Rightarrow> custom_state \<Rightarrow> custom_state \<times> nat \<times> bool" where
  \<comment> \<open>The \<^verbatim>\<open>for\<close> loop over the options; the third part is \<^verbatim>\<open>option_exists\<close>.  After a rejected
      boolean value the source's \<^verbatim>\<open>continue\<close> goes on with the next option of this loop.\<close>
  "select_by_name [] option_part val st = (st, 0, False)"
| "select_by_name (opt # rest) option_part val st =
     (if opt_name opt = option_part then
        (case apply_value opt val st of
           None \<Rightarrow>
             (case select_by_name rest option_part val st of
                (st', pauses, _) \<Rightarrow> (st', Suc pauses, True))
         | Some st' \<Rightarrow> (st', 0, True))
      else select_by_name rest option_part val st)"

definition process_input :: "BuildOption list \<Rightarrow> string \<Rightarrow> custom_state \<Rightarrow> custom_state \<times> nat" where
  "process_input available_options user_input st =
     (if CHR ''='' \<in> set user_input then
        (let option_part = py_strip (fst (split_eq user_input));
             val = py_strip (snd (split_eq user_input))
         in if py_isdigit option_part then select_by_index available_options option_part val st
            else
              (case select_by_name available_options option_part val st of
                 (st', pauses, option_exists) \<Rightarrow>
                   if \<not> option_exists then (st', Suc pauses) else (st', pauses)))
      else if user_input = ''-GNinja'' then
        (st\<lparr>current_options := (current_options st)(''-GNinja'' \<mapsto> ''ON''), use_ninja := True\<rparr>, 0)
      else (st, 1))"

fun customize_loop :: "BuildOption list \<Rightarrow> custom_state \<Rightarrow> string list \<Rightarrow> py_exception + custom_state \<times> string list" where
  "customize_loop available_options st [] = Inl EOFError"
| "customize_loop available_options st (line # rest) =
     (let user_input = py_strip line in
      if user_input = [] \<or> py_lower user_input = ''done'' then Inr (st, rest)
      else
        (case process_input available_options user_input st of
           (st', pauses) \<Rightarrow>
             if length rest < pauses then Inl EOFError
             else customize_loop available_options st' (drop pauses rest)))"

definition custom_options_of :: "BuildOption list \<Rightarrow> (string \<rightharpoonup> string) \<Rightarrow> string list" where
  "custom_options_of available_options cur =
     concat (map (\<lambda>opt.
       (let current_val = dict_get cur (opt_name opt) (current_value opt) in
        if current_val \<noteq> current_value opt then
          (if option_type opt = ''generator'' then
             (if current_val = ''ON'' then [opt_name opt] else [])
           else [opt_name opt @ ''='' @ current_val])
        else [])) available_options)"

definition wait_enter :: "string list \<Rightarrow> py_exception + string list" where
  \<comment> \<open>\<^verbatim>\<open>input()\<close>\<close>
  "wait_enter stdin = (case stdin of [] \<Rightarrow> Inl EOFError | _ # rest \<Rightarrow> Inr rest)"

definition finish_customization ::
  "GameMode \<Rightarrow> BuildOption list \<Rightarrow> custom_state \<Rightarrow> string list \<Rightarrow> py_exception + (string list \<times> bool) \<times> string list" where
  "finish_customization selected_mode available_options st stdin =
     (let custom_options = custom_options_of available_options (current_options st) in
      if custom_options \<noteq> [] then
        (let build_command = [''cmake'', ''../source/''] @ custom_options;
             has_client = list_ex (py_contains ''-DCLIENT'') custom_options;
             has_server = list_ex (py_contains ''-DSERVER'') custom_options;
             build_command = (if \<not> has_client then build_command @ [''-DCLIENT=OFF''] else build_command);
             build_command = (if \<not> has_server then build_command @ [''-DSERVER=ON''] else build_command)
         in Inr ((build_command, use_ninja st), stdin))
      else
        (case wait_enter stdin of
           Inl e \<Rightarrow> Inl e
         | Inr rest \<Rightarrow> Inr ((build_opts selected_mode, False), rest)))"

definition initial_options :: "BuildOption list \<Rightarrow> custom_state" where
  "initial_options available_options =
     \<lparr>current_options = fold (\<lambda>opt d. d(opt_name opt \<mapsto> current_value opt)) available_options Map.empty,
      use_ninja = False\<rparr>"

definition customize_build_options ::
  "GameMode \<Rightarrow> bool \<Rightarrow> string list \<Rightarrow> py_exception + (string list \<times> bool) \<times> string list" where
  \<comment> \<open>\<open>customize\<close> is the answer to \<^verbatim>\<open>Confirm.ask\<close>, \<open>stdin\<close> the lines typed after it; the result
      is the returned pair and the lines left\<close>
  "customize_build_options selected_mode customize stdin =
     (if \<not> customize then Inr ((build_opts selected_mode, False), stdin)
      else
        (let available_options = dict_get AVAILABLE_BUILD_OPTIONS (mode_name selected_mode) [] in
         if available_options = [] then
           (case wait_enter stdin of
              Inl e \<Rightarrow> Inl e
            | Inr rest \<Rightarrow> Inr ((build_opts selected_mode, False), rest))
         else
           (case customize_loop available_options (initial_options available_options) stdin of
              Inl e \<Rightarrow> Inl e
            | Inr (st, rest) \<Rightarrow> finish_customization selected_mode available_options st rest)))"

subsection \<open>Dependency installation\<close>

definition get_install_command :: "PackageManager \<Rightarrow> bool \<Rightarrow> string \<Rightarrow> string list option" where
  \<comment> \<open>\<open>package_manager\<close> and \<open>is_root\<close> are the fields of \<^verbatim>\<open>self\<close>\<close>
  "get_install_command package_manager is_root deps =
     (if package_manager = APT then
        Some ((if \<not> is_root then [''sudo'', ''apt-get'', ''install'', ''-y''] else [''apt-get'', ''install'', ''-y''])
              @ py_split deps)
      else if package_manager = DNF then
        Some ((if \<not> is_root then [''sudo'', ''dnf'', ''install'', ''-y''] else [''dnf'', ''install'', ''-y''])
              @ py_split deps)
      else if package_manager = YUM then
        Some ((if \<not> is_root then [''sudo'', ''yum'', ''install'', ''-y''] else [''yum'', ''install'', ''-y''])
              @ py_split deps)
      else if package_manager = PACMAN then
        Some ((if \<not> is_root then [''sudo'', ''pacman'', ''-S'', ''--noconfirm''] else [''pacman'', ''-S'', ''--noconfirm''])
              @ py_split deps)
      else if package_manager = ZYPPER then
        Some ((if \<not> is_root then [''sudo'', ''zypper'', ''install'', ''-y''] else [''zypper'', ''install'', ''-y''])
              @ py_split deps)
      else None)"

definition ninja_packages :: "string \<rightharpoonup> string" where
  "ninja_packages = map_of
     [(''apt-get'', ''ninja-build''), (''dnf'', ''ninja-build''), (''yum'', ''ninja-build''),
      (''pacman'', ''ninja''), (''zypper'', ''ninja'')]"

definition all_deps :: "PackageManager \<Rightarrow> GameMode \<Rightarrow> bool \<Rightarrow> string" where
  \<comment> \<open>the string \<^verbatim>\<open>all_deps\<close> of \<^verbatim>\<open>install_dependencies\<close>, for a known package manager\<close>
  "all_deps package_manager selected_mode ninja =
     (let pmv = pm_value package_manager;
          base_deps = dict_get BASE_DEPS pmv (dict_get BASE_DEPS ''apt-get'' []);
          mode_deps = dict_get (dependencies selected_mode) pmv
                        (dict_get (dependencies selected_mode) ''apt-get'' []);
          deps = base_deps @ '' '' @ mode_deps
      in if ninja then deps @ '' '' @ dict_get ninja_packages pmv ''ninja-build'' else deps)"

definition install_command :: "PackageManager \<Rightarrow> bool \<Rightarrow> GameMode \<Rightarrow> bool \<Rightarrow> string list option" where
  \<comment> \<open>\<^verbatim>\<open>install_cmd\<close> of \<^verbatim>\<open>install_dependencies\<close>\<close>
  "install_command package_manager is_root selected_mode ninja =
     get_install_command package_manager is_root (all_deps package_manager selected_mode ninja)"

definition install_dependencies ::
  "PackageManager \<Rightarrow> bool \<Rightarrow> GameMode \<Rightarrow> bool \<Rightarrow> bool \<Rightarrow> (string list \<Rightarrow> (bool \<times> string \<times> string) outcome)
     \<Rightarrow> bool outcome" where
  \<comment> \<open>\<open>proceed\<close> is the answer to \<^verbatim>\<open>Confirm.ask\<close>; \<open>run\<close> is \<^verbatim>\<open>run_command\<close> on a command line\<close>
  "install_dependencies package_manager is_root selected_mode ninja proceed run =
     (if package_manager = UNKNOWN then (if \<not> proceed then Returns False else Returns True)
      else
        (case install_command package_manager is_root selected_mode ninja of
           None \<Rightarrow> Returns False
         | Some install_cmd \<Rightarrow>
             success_of (run install_cmd)))"

subsection \<open>Configuration file\<close>

text \<open>
  A Python \<^verbatim>\<open>dict\<close> keeps its keys in the order of their first insertion, and the file is
  written in that order: here it is an association list, \<open>dict_set\<close> is \<^verbatim>\<open>d[k] = v\<close>.
\<close>

fun dict_set :: "('k \<times> 'v) list \<Rightarrow> 'k \<Rightarrow> 'v \<Rightarrow> ('k \<times> 'v) list" where
  "dict_set [] k v = [(k, v)]"
| "dict_set ((k', v') # d) k v = (if k' = k then (k, v) # d else (k', v') # dict_set d k v)"

fun collect_config_values :: "ConfigSetting list \<Rightarrow> string list \<Rightarrow> (string \<times> string) list \<Rightarrow> (string \<times> string) list" where
  \<comment> \<open>The \<^verbatim>\<open>for setting in settings\<close> loop of \<^verbatim>\<open>_basic_configuration\<close>, given for each setting the
      value that passed its validation: \<^verbatim>\<open>config_values[setting.key] = value\<close>.\<close>
  "collect_config_values (setting # settings) (v # vs) d = collect_config_values settings vs (dict_set d (key setting) v)"
| "collect_config_values _ _ d = d"

definition config_header :: "GameMode \<Rightarrow> string" where
  "config_header selected_mode =
     ''// Teeworlds Server Configuration'' @ [CHR 0x0A]
     @ ''// Generated by TEEMAKE v3.0'' @ [CHR 0x0A]
     @ ''// Game Mode: '' @ mode_name selected_mode @ [CHR 0x0A]
     @ [CHR 0x0A]"

definition config_entry :: "string \<times> string \<Rightarrow> string" where
  "config_entry kv =
     (case kv of (k, v) \<Rightarrow>
        if k \<in> set [''sv_port'', ''sv_max_clients''] then k @ '' '' @ v @ [CHR 0x0A]
        else k @ '' '' @ [CHR 0x22] @ v @ [CHR 0x22] @ [CHR 0x0A])"

definition save_config_file :: "GameMode \<Rightarrow> (string \<times> string) list \<Rightarrow> bool \<Rightarrow> bool \<times> string option" where
  \<comment> \<open>\<open>writable\<close>: opening and writing the file raise nothing.  The result is the returned
      flag and the text of the file written.\<close>
  "save_config_file selected_mode config_values writable =
     (if writable then
        (True, Some (config_header selected_mode @ concat (map config_entry config_values)))
      else (False, None))"

subsection \<open>Build pipeline\<close>

datatype stage = Clone | Configure | Compile

record build_env =
  clone_proc :: process
  git_dir_exists :: bool
  configure_proc :: process
  ninja_proc :: process
  make_proc :: process
  start_dir_exists :: bool

definition clone_repository :: "bool \<Rightarrow> build_env \<Rightarrow> bool outcome" where
  "clone_repository verbose env =
     (case success_of (run_command verbose (clone_proc env)) of
        Returns success \<Rightarrow>
          (if \<not> success then Returns False
           else if \<not> git_dir_exists env then Returns False
           else Returns True)
      | Raises e \<Rightarrow> Raises e
      | Hangs \<Rightarrow> Hangs)"

definition configure_build :: "bool \<Rightarrow> build_env \<Rightarrow> bool outcome" where
  "configure_build verbose env = success_of (run_command verbose (configure_proc env))"

definition compile_server :: "bool \<Rightarrow> build_env \<Rightarrow> bool \<Rightarrow> bool outcome" where
  "compile_server verbose env ninja =
     (if ninja then success_of (run_command verbose (ninja_proc env))
      else success_of (run_command verbose (make_proc env)))"

text \<open>
  The \<^verbatim>\<open>try\<close> block of \<^verbatim>\<open>build_server\<close>.  Every command runs in a child process that is given
  its \<^verbatim>\<open>cwd\<close>, so no stage touches the working directory of the wizard itself.  The result
  is the outcome of the block with the stages invoked, in order.
\<close>

definition pipeline_body :: "bool \<Rightarrow> build_env \<Rightarrow> bool \<Rightarrow> string \<Rightarrow> string option outcome \<times> stage list" where
  "pipeline_body verbose env ninja build_path =
     (case clone_repository verbose env of
        Raises e \<Rightarrow> (Raises e, [Clone])
      | Hangs \<Rightarrow> (Hangs, [Clone])
      | Returns cloned \<Rightarrow>
          if \<not> cloned then (Returns None, [Clone])
          else
            (case configure_build verbose env of
               Raises e \<Rightarrow> (Raises e, [Clone, Configure])
             | Hangs \<Rightarrow> (Hangs, [Clone, Configure])
             | Returns configured \<Rightarrow>
                 if \<not> configured then (Returns None, [Clone, Configure])
                 else
                   (case compile_server verbose env ninja of
                      Raises e \<Rightarrow> (Raises e, [Clone, Configure, Compile])
                    | Hangs \<Rightarrow> (Hangs, [Clone, Configure, Compile])
                    | Returns compiled \<Rightarrow>
                        if \<not> compiled then (Returns None, [Clone, Configure, Compile])
                        else (Returns (Some build_path), [Clone, Configure, Compile]))))"

definition os_chdir :: "build_env \<Rightarrow> string \<Rightarrow> string \<Rightarrow> unit outcome \<times> string" where
  \<comment> \<open>\<^verbatim>\<open>os.chdir(start_dir)\<close> from the working directory \<open>cwd\<close>: the new working directory, or an
      exception that leaves it as it is\<close>
  "os_chdir env start_dir cwd =
     (if start_dir_exists env then (Returns (), start_dir)
      else (Raises (Exception ''No such file or directory''), cwd))"

definition build_pipeline ::
  "bool \<Rightarrow> build_env \<Rightarrow> bool \<Rightarrow> string \<Rightarrow> string \<Rightarrow> string option outcome \<times> stage list \<times> string" where
  \<comment> \<open>The \<^verbatim>\<open>try\<close>/\<^verbatim>\<open>finally\<close> of \<^verbatim>\<open>build_server\<close>, entered in the working directory \<open>cwd\<close>, which is
      \<^verbatim>\<open>start_dir\<close>.  The result: the outcome, the stages invoked, the working directory left.\<close>
  "build_pipeline verbose env ninja build_path cwd =
     (let start_dir = cwd in
      case pipeline_body verbose env ninja build_path of
        (Hangs, invoked) \<Rightarrow> (Hangs, invoked, cwd)
      | (r, invoked) \<Rightarrow>
          (case os_chdir env start_dir cwd of
             (Returns _, cwd') \<Rightarrow> (r, invoked, cwd')
           | (Raises e, cwd') \<Rightarrow> (Raises e, invoked, cwd')
           | (Hangs, cwd') \<Rightarrow> (Hangs, invoked, cwd')))"

subsection \<open>Notions used to state the properties of the customization\<close>

text \<open>
  An option is changed when its current value differs from its declared default; the
  override of a changed option is the text appended for it.
\<close>

definition changed :: "BuildOption \<Rightarrow> custom_state \<Rightarrow> bool" where
  "changed opt st = (dict_get (current_options st) (opt_name opt) (current_value opt) \<noteq> current_value opt)"

definition override_text :: "BuildOption \<Rightarrow> custom_state \<Rightarrow> string" where
  "override_text opt st =
     (if option_type opt = ''generator'' then opt_name opt
      else opt_name opt @ ''='' @ dict_get (current_options st) (opt_name opt) (current_value opt))"

definition overrides_of :: "BuildOption list \<Rightarrow> custom_state \<Rightarrow> string list" where
  "overrides_of opts st = map (\<lambda>opt. override_text opt st) (filter (\<lambda>opt. changed opt st) opts)"

definition generators_on_off :: "BuildOption list \<Rightarrow> custom_state \<Rightarrow> bool" where
  "generators_on_off opts st =
     (\<forall>opt \<in> set opts. option_type opt = ''generator'' \<longrightarrow>
        dict_get (current_options st) (opt_name opt) (current_value opt) \<in> {''ON'', ''OFF''})"

text \<open>
  A value is among some tokens up to case when it agrees with one of them after both are
  put in lower case.  The first part of an input selects an option by its number, counted
  from 1, when it is a numeral, and otherwise as the first option of that name.
\<close>

definition ci_member :: "string \<Rightarrow> string list \<Rightarrow> bool" where
  "ci_member v tokens = list_ex (\<lambda>t. py_lower v = py_lower t) tokens"

definition selects :: "BuildOption list \<Rightarrow> string \<Rightarrow> BuildOption \<Rightarrow> bool" where
  "selects opts option_part opt =
     (if py_isdigit option_part then
        1 \<le> py_int option_part \<and> py_int option_part \<le> length opts
        \<and> opt = opts ! (py_int option_part - 1)
      else find (\<lambda>b. opt_name b = option_part) opts = Some opt)"

section \<open>Properties\<close>

subsection \<open>Disk space check\<close>

text \<open>
  Claim C10.  If the query for free disk space raises, \<open>check_disk_space\<close> returns true, so
  the run goes on without the minimum being verified; it returns false, which is what
  makes the caller abort, exactly when the query succeeds and reports fewer than
  2000 MB (of \<open>1024 * 1024\<close> bytes) free.
\<close>

theorem check_disk_space_lenient:
  "check_disk_space (Inl e) = True \<and>
   (check_disk_space usage = False \<longleftrightarrow>
      (\<exists>free. usage = Inr free \<and> real free / (1024 * 1024) < 2000 \<and> free < 2000 * 1024 * 1024))"
  by (cases usage) (auto simp: check_disk_space_def MIN_DISK_SPACE_MB_def Let_def field_simps)

subsection \<open>Command runner\<close>

text \<open>
  Claim C1, at the input where the code departs from it.  In verbose mode a command that
  cannot be launched makes \<open>run_command\<close> raise the launch error: the call of
  \<^verbatim>\<open>subprocess.run\<close> of that branch stands outside the \<^verbatim>\<open>try\<close>.  In quiet mode the same
  command gives the failure tuple with the message as stderr.
\<close>

theorem run_command_verbose_raises:
  "run_command True (Launch_fails ''[Errno 2] No such file or directory'')
     = Raises (Exception ''[Errno 2] No such file or directory'')
   \<and> run_command False (Launch_fails ''[Errno 2] No such file or directory'')
     = Returns (False, [], ''[Errno 2] No such file or directory'')"
  by (simp add: run_command_def subprocess_run_def)

text \<open>
  Claim C2, at the input where the code departs from it.  In verbose mode no timeout is
  given to \<^verbatim>\<open>subprocess.run\<close>: a command that exits with code 0 after 4000 seconds is reported
  as a success, and one that never exits leaves \<open>run_command\<close> waiting.  In quiet mode both
  give the failure tuple with the timed-out message.
\<close>

theorem run_command_verbose_no_timeout:
  "run_command True (Exits 4000 0 ''done'' []) = Returns (True, ''done'', [])
   \<and> run_command True Never_exits = Hangs
   \<and> run_command False (Exits 4000 0 ''done'' []) = Returns (False, [], ''Command timed out after 1 hour'')
   \<and> run_command False Never_exits = Returns (False, [], ''Command timed out after 1 hour'')"
  by (simp add: run_command_def subprocess_run_def)

subsection \<open>Server name validation\<close>

text \<open>
  Claim C5, at the input where the code departs from it.  The name \<^verbatim>\<open>abc\<close> followed by a
  newline is accepted, although the newline is outside \<^verbatim>\<open>[A-Za-z0-9_-]\<close>: the \<^verbatim>\<open>$\<close> of the
  pattern also matches just before a newline that ends the string.
\<close>

theorem validate_server_name_trailing_newline:
  "validate_server_name (''abc'' @ [CHR 0x0A]) = True \<and> \<not> name_char (CHR 0x0A)"
  by (simp add: validate_server_name_def re_match_name_def name_char_def)

lemma py_contains_set: "py_contains sub s \<Longrightarrow> set sub \<subseteq> set s"
proof (induction s)
  case Nil
  then show ?case by simp
next
  case (Cons c cs)
  from Cons.prems have "take (length sub) (c # cs) = sub \<or> py_contains sub cs" by simp
  then show ?case
  proof
    assume "take (length sub) (c # cs) = sub"
    then have "set sub = set (take (length sub) (c # cs))" by simp
    then show ?thesis using set_take_subset by fast
  next
    assume "py_contains sub cs"
    with Cons.IH show ?thesis by auto
  qed
qed

lemma newline_not_name_char: "\<not> name_char (CHR 0x0A)"
  by (simp add: name_char_def)

lemma separators_not_name_char:
  "\<not> name_char (CHR ''.'')" "\<not> name_char (CHR ''/'')" "\<not> name_char (CHR 0x5C)"
  by (simp_all add: name_char_def)

lemma no_traversal_in_name:
  assumes "list_all name_char body" and "name = body \<or> name = body @ [CHR 0x0A]"
  shows "\<not> py_contains ''..'' name" and "\<not> py_contains ''/'' name" and "\<not> py_contains [CHR 0x5C] name"
proof -
  have ok: "\<forall>c \<in> set name. name_char c \<or> c = CHR 0x0A"
    using assms by (auto simp: list_all_iff)
  show "\<not> py_contains ''..'' name"
  proof
    assume "py_contains ''..'' name"
    from py_contains_set [OF this] have "CHR ''.'' \<in> set name" by simp
    with ok separators_not_name_char(1) show False by auto
  qed
  show "\<not> py_contains ''/'' name"
  proof
    assume "py_contains ''/'' name"
    from py_contains_set [OF this] have "CHR ''/'' \<in> set name" by simp
    with ok separators_not_name_char(2) show False by auto
  qed
  show "\<not> py_contains [CHR 0x5C] name"
  proof
    assume "py_contains [CHR 0x5C] name"
    from py_contains_set [OF this] have "CHR 0x5C \<in> set name" by simp
    with ok separators_not_name_char(3) show False by auto
  qed
qed

text \<open>
  That newline is the only departure: a name is accepted exactly when it is a non-empty
  run of characters of the class, possibly followed by one newline, of length at most 64.
  The tests for \<^verbatim>\<open>..\<close>, \<^verbatim>\<open>/\<close> and the backslash reject nothing that the pattern accepts.
\<close>

lemma validate_server_name_iff:
  "validate_server_name name =
     (\<exists>body. body \<noteq> [] \<and> list_all name_char body
        \<and> (name = body \<or> name = body @ [CHR 0x0A]) \<and> length name \<le> 64)"
proof
  assume v: "validate_server_name name"
  let ?body = "takeWhile name_char name"
  from v have m: "re_match_name name" and len: "length name \<le> 64"
    unfolding validate_server_name_def by (simp_all split: if_splits)
  from m have ne: "?body \<noteq> []" and rest: "dropWhile name_char name = [] \<or> dropWhile name_char name = [CHR 0x0A]"
    unfolding re_match_name_def Let_def by blast+
  have id: "?body @ dropWhile name_char name = name" by (rule takeWhile_dropWhile_id)
  have shape: "name = ?body \<or> name = ?body @ [CHR 0x0A]"
  proof (rule disjE [OF rest])
    assume e: "dropWhile name_char name = []"
    from id have "?body @ [] = name" unfolding e .
    then have "name = ?body" by (simp only: append_Nil2)
    then show ?thesis by (rule disjI1)
  next
    assume e: "dropWhile name_char name = [CHR 0x0A]"
    from id have "?body @ [CHR 0x0A] = name" unfolding e .
    then have "name = ?body @ [CHR 0x0A]" by (rule sym)
    then show ?thesis by (rule disjI2)
  qed
  have "\<forall>c \<in> set ?body. name_char c"
    using set_takeWhileD by fast
  then have "list_all name_char ?body"
    by (simp only: list_all_iff)
  with shape show "\<exists>body. body \<noteq> [] \<and> list_all name_char body
        \<and> (name = body \<or> name = body @ [CHR 0x0A]) \<and> length name \<le> 64"
    using ne len by blast
next
  assume "\<exists>body. body \<noteq> [] \<and> list_all name_char body
        \<and> (name = body \<or> name = body @ [CHR 0x0A]) \<and> length name \<le> 64"
  then obtain body where ne: "body \<noteq> []" and all: "list_all name_char body"
    and nm: "name = body \<or> name = body @ [CHR 0x0A]" and len: "length name \<le> 64" by blast
  have all': "\<forall>c \<in> set body. name_char c" using all by (simp add: list_all_iff)
  have tw: "takeWhile name_char name = body"
  proof (rule disjE [OF nm])
    assume "name = body"
    with all' show ?thesis by (simp add: takeWhile_eq_all_conv)
  next
    assume "name = body @ [CHR 0x0A]"
    with all' show ?thesis by (simp add: takeWhile_append2 newline_not_name_char)
  qed
  have dw: "dropWhile name_char name = [] \<or> dropWhile name_char name = [CHR 0x0A]"
  proof (rule disjE [OF nm])
    assume "name = body"
    with all' show ?thesis by (simp add: dropWhile_eq_Nil_conv)
  next
    assume "name = body @ [CHR 0x0A]"
    with all' show ?thesis by (simp add: dropWhile_append2 newline_not_name_char)
  qed
  have m: "re_match_name name"
    unfolding re_match_name_def Let_def tw using dw ne by blast
  have "1 \<le> length name" using nm ne by (cases body) auto
  with m len no_traversal_in_name [OF all nm] show "validate_server_name name"
    unfolding validate_server_name_def by auto
qed

subsection \<open>Dependency installation\<close>

lemma py_isspace_space: "py_isspace (CHR '' '')"
  by (simp add: py_isspace_def)

lemma split_ws_space: "split_ws w (a @ CHR '' '' # b) = split_ws w a @ split_ws [] b"
  by (induction a arbitrary: w) (simp_all add: py_isspace_space)

lemma py_split_join: "py_split (a @ '' '' @ b) = py_split a @ py_split b"
  by (simp add: py_split_def split_ws_space)

lemma base_deps_known: "pm \<noteq> UNKNOWN \<Longrightarrow> BASE_DEPS (pm_value pm) \<noteq> None"
  by (cases pm) (simp_all add: BASE_DEPS_def)

lemma ninja_package_word:
  "pm \<noteq> UNKNOWN \<Longrightarrow>
     py_split (dict_get ninja_packages (pm_value pm) ''ninja-build'')
       = [if pm = PACMAN \<or> pm = ZYPPER then ''ninja'' else ''ninja-build'']"
  by (cases pm) (simp_all add: ninja_packages_def dict_get_def py_split_def py_isspace_def)

lemma get_install_command_prefix:
  "pm \<noteq> UNKNOWN \<Longrightarrow>
     get_install_command pm is_root deps =
       Some ((if is_root then [] else [''sudo''])
             @ [pm_value pm]
             @ (if pm = PACMAN then [''-S'', ''--noconfirm''] else [''install'', ''-y''])
             @ py_split deps)"
  by (cases pm) (simp_all add: get_install_command_def)

text \<open>
  Claim C4, amended.  For every supported package manager the installation command is:
  \<^verbatim>\<open>sudo\<close> exactly when the process is not elevated; the manager's binary; \<^verbatim>\<open>install -y\<close> for
  APT, DNF, YUM and ZYPPER, but \<^verbatim>\<open>-S --noconfirm\<close> for PACMAN; the base packages of the
  manager; the packages of the mode; the manager's ninja package when Ninja was selected.
  This is the command that \<open>install_dependencies\<close> runs, and its success is the result.
\<close>

theorem install_command_shape:
  assumes "pm \<noteq> UNKNOWN"
  shows "install_command pm is_root selected_mode ninja =
     Some ((if is_root then [] else [''sudo''])
           @ [pm_value pm]
           @ (if pm = PACMAN then [''-S'', ''--noconfirm''] else [''install'', ''-y''])
           @ py_split (dict_get BASE_DEPS (pm_value pm) [])
           @ py_split (dict_get (dependencies selected_mode) (pm_value pm)
                         (dict_get (dependencies selected_mode) ''apt-get'' []))
           @ (if ninja then [if pm = PACMAN \<or> pm = ZYPPER then ''ninja'' else ''ninja-build''] else []))
     \<and> install_dependencies pm is_root selected_mode ninja proceed run =
         success_of (run (the (install_command pm is_root selected_mode ninja)))"
proof -
  obtain b where b: "BASE_DEPS (pm_value pm) = Some b"
    using base_deps_known [OF assms] by blast
  let ?mode_deps = "dict_get (dependencies selected_mode) (pm_value pm)
                      (dict_get (dependencies selected_mode) ''apt-get'' [])"
  let ?pkg = "dict_get ninja_packages (pm_value pm) ''ninja-build''"
  have all: "all_deps pm selected_mode ninja =
      (if ninja then (b @ '' '' @ ?mode_deps) @ '' '' @ ?pkg else b @ '' '' @ ?mode_deps)"
    by (simp add: all_deps_def Let_def b dict_get_def)
  have deps: "py_split (all_deps pm selected_mode ninja) =
      py_split b @ py_split ?mode_deps
      @ (if ninja then [if pm = PACMAN \<or> pm = ZYPPER then ''ninja'' else ''ninja-build''] else [])"
    unfolding all py_split_join if_distrib [of py_split] ninja_package_word [OF assms]
    by (simp add: py_split_join)
  have base: "dict_get BASE_DEPS (pm_value pm) [] = b"
    by (simp add: dict_get_def b)
  have cmd: "install_command pm is_root selected_mode ninja =
     Some ((if is_root then [] else [''sudo''])
           @ [pm_value pm]
           @ (if pm = PACMAN then [''-S'', ''--noconfirm''] else [''install'', ''-y''])
           @ py_split (dict_get BASE_DEPS (pm_value pm) [])
           @ py_split ?mode_deps
           @ (if ninja then [if pm = PACMAN \<or> pm = ZYPPER then ''ninja'' else ''ninja-build''] else []))"
    unfolding install_command_def get_install_command_prefix [OF assms] deps base by simp
  have run: "install_dependencies pm is_root selected_mode ninja proceed run =
         success_of (run (the (install_command pm is_root selected_mode ninja)))"
    using assms by (simp add: install_dependencies_def cmd)
  from cmd run show ?thesis by blast
qed

theorem install_command_shape_witness:
  "APT \<noteq> UNKNOWN \<and>
   install_command APT False Teeworlds False =
     Some [''sudo'', ''apt-get'', ''install'', ''-y'',
           ''build-essential'', ''cmake'', ''git'', ''python3'', ''libfreetype6-dev'', ''libsdl2-dev'',
           ''libpnglite-dev'', ''libwavpack-dev'']"
  using install_command_shape [of APT False Teeworlds False]
  by (simp add: BASE_DEPS_def Teeworlds_def dict_get_def py_split_def py_isspace_def)

text \<open>
  Claim C4 as stated fails for PACMAN: the command of an unprivileged Teeworlds
  installation is \<^verbatim>\<open>sudo pacman -S --noconfirm ...\<close>, not \<^verbatim>\<open>sudo pacman install -y ...\<close>.
\<close>

theorem install_command_pacman_counterexample:
  "install_command PACMAN False Teeworlds False =
     Some [''sudo'', ''pacman'', ''-S'', ''--noconfirm'',
           ''base-devel'', ''cmake'', ''git'', ''python'', ''freetype2'', ''sdl2'', ''libpng'', ''wavpack'']
   \<and> install_command PACMAN False Teeworlds False \<noteq>
     Some [''sudo'', ''pacman'', ''install'', ''-y'',
           ''base-devel'', ''cmake'', ''git'', ''python'', ''freetype2'', ''sdl2'', ''libpng'', ''wavpack'']"
  by (simp add: install_command_def get_install_command_def all_deps_def BASE_DEPS_def Teeworlds_def
        dict_get_def py_split_def py_isspace_def)

subsection \<open>Build pipeline\<close>

lemma pipeline_body_cases:
  "pipeline_body verbose env ninja build_path = (r, invoked) \<Longrightarrow>
     invoked = [Clone] \<or> invoked = [Clone, Configure]
     \<or> invoked = [Clone, Configure, Compile] \<and> configure_build verbose env = Returns True"
  by (auto simp: pipeline_body_def split: outcome.splits if_splits)

text \<open>
  Claim C8.  Whatever the stages do (succeed, fail, raise), the pipeline leaves the working
  directory it was entered in; and if the configure stage does not succeed, the compile
  stage is not among the stages invoked.
\<close>

theorem pipeline_short_circuit:
  "snd (snd (build_pipeline verbose env ninja build_path cwd)) = cwd \<and>
   (configure_build verbose env \<noteq> Returns True \<longrightarrow>
      Compile \<notin> set (fst (snd (build_pipeline verbose env ninja build_path cwd))))"
proof -
  obtain r invoked where body: "pipeline_body verbose env ninja build_path = (r, invoked)"
    by (cases "pipeline_body verbose env ninja build_path")
  have inv: "fst (snd (build_pipeline verbose env ninja build_path cwd)) = invoked"
    by (simp add: build_pipeline_def body os_chdir_def split: outcome.splits)
  have dir: "snd (snd (build_pipeline verbose env ninja build_path cwd)) = cwd"
    by (simp add: build_pipeline_def body os_chdir_def split: outcome.splits)
  from pipeline_body_cases [OF body] inv dir show ?thesis by auto
qed

theorem pipeline_short_circuit_witness:
  "configure_build False
      \<lparr>clone_proc = Exits 20 0 [] [], git_dir_exists = True,
       configure_proc = Exits 3 1 [] ''CMake Error'', ninja_proc = Exits 60 0 [] [],
       make_proc = Exits 600 0 [] [], start_dir_exists = True\<rparr> \<noteq> Returns True
   \<and> build_pipeline False
      \<lparr>clone_proc = Exits 20 0 [] [], git_dir_exists = True,
       configure_proc = Exits 3 1 [] ''CMake Error'', ninja_proc = Exits 60 0 [] [],
       make_proc = Exits 600 0 [] [], start_dir_exists = True\<rparr>
      False ''/home/tee/myserver/server'' ''/home/tee''
     = (Returns None, [Clone, Configure], ''/home/tee'')"
  using pipeline_short_circuit
    [of False "\<lparr>clone_proc = Exits 20 0 [] [], git_dir_exists = True,
       configure_proc = Exits 3 1 [] ''CMake Error'', ninja_proc = Exits 60 0 [] [],
       make_proc = Exits 600 0 [] [], start_dir_exists = True\<rparr>"
       False "''/home/tee/myserver/server''" "''/home/tee''"]
  by (simp add: build_pipeline_def pipeline_body_def clone_repository_def configure_build_def
        success_of_def run_command_def subprocess_run_def os_chdir_def)

subsection \<open>Configuration file\<close>

lemma dict_set_fresh: "k \<notin> fst ` set d \<Longrightarrow> dict_set d k v = d @ [(k, v)]"
  by (induction d) auto

lemma collect_config_values_distinct:
  "distinct (map key settings) \<Longrightarrow> length vs = length settings \<Longrightarrow>
   (\<forall>s \<in> set settings. key s \<notin> fst ` set d) \<Longrightarrow>
   collect_config_values settings vs d = d @ zip (map key settings) vs"
proof (induction settings arbitrary: vs d)
  case Nil
  then show ?case by simp
next
  case (Cons s settings)
  then obtain v vs' where vs: "vs = v # vs'" by (cases vs) auto
  have fresh: "key s \<notin> fst ` set d" using Cons.prems(3) by simp
  have "\<forall>t \<in> set settings. key t \<notin> fst ` set (d @ [(key s, v)])"
  proof
    fix t assume t: "t \<in> set settings"
    then have "key t \<noteq> key s" using Cons.prems(1) by (metis distinct.simps(2) image_eqI list.simps(9) set_map)
    moreover have "key t \<notin> fst ` set d" using Cons.prems(3) t by simp
    ultimately show "key t \<notin> fst ` set (d @ [(key s, v)])" by auto
  qed
  with Cons.IH [of vs' "d @ [(key s, v)]"] Cons.prems(1,2) vs fresh
  show ?case by (simp add: dict_set_fresh)
qed

text \<open>
  Claim C9.  When the file can be written, its text is the three comment lines, each
  starting with \<^verbatim>\<open>//\<close>, and an empty line, then one line per collected setting in the order
  of the settings: \<^verbatim>\<open>key value\<close> for the keys \<^verbatim>\<open>sv_port\<close> and \<^verbatim>\<open>sv_max_clients\<close>, and the value
  between double quotes for every other key.
\<close>

theorem config_file_format:
  assumes "distinct (map key settings)" and "length vs = length settings"
  shows "save_config_file selected_mode (collect_config_values settings vs []) True =
     (True, Some (''// Teeworlds Server Configuration'' @ [CHR 0x0A]
        @ ''// Generated by TEEMAKE v3.0'' @ [CHR 0x0A]
        @ ''// Game Mode: '' @ mode_name selected_mode @ [CHR 0x0A]
        @ [CHR 0x0A]
        @ concat (map2 (\<lambda>s v.
            if key s = ''sv_port'' \<or> key s = ''sv_max_clients'' then key s @ '' '' @ v @ [CHR 0x0A]
            else key s @ '' '' @ [CHR 0x22] @ v @ [CHR 0x22] @ [CHR 0x0A]) settings vs)))"
proof -
  have d: "collect_config_values settings vs [] = zip (map key settings) vs"
    using collect_config_values_distinct [OF assms, of "[]"] by simp
  have "map config_entry (zip (map key settings) vs) =
        map2 (\<lambda>s v.
            if key s = ''sv_port'' \<or> key s = ''sv_max_clients'' then key s @ '' '' @ v @ [CHR 0x0A]
            else key s @ '' '' @ [CHR 0x22] @ v @ [CHR 0x22] @ [CHR 0x0A]) settings vs"
    by (simp add: zip_map1 config_entry_def case_prod_unfold)
  then show ?thesis
    by (simp add: save_config_file_def config_header_def d)
qed

theorem config_file_format_witness:
  "distinct (map key (dict_get BASIC_CONFIG_SETTINGS ''Teeworlds'' []))
   \<and> length [''X'', ''8303'', ''16'', ''dm''] = length (dict_get BASIC_CONFIG_SETTINGS ''Teeworlds'' [])
   \<and> save_config_file Teeworlds
        (collect_config_values (dict_get BASIC_CONFIG_SETTINGS ''Teeworlds'' []) [''X'', ''8303'', ''16'', ''dm''] [])
        True =
      (True, Some (''// Teeworlds Server Configuration'' @ [CHR 0x0A]
        @ ''// Generated by TEEMAKE v3.0'' @ [CHR 0x0A]
        @ ''// Game Mode: Teeworlds'' @ [CHR 0x0A]
        @ [CHR 0x0A]
        @ ''sv_name '' @ [CHR 0x22] @ ''X'' @ [CHR 0x22] @ [CHR 0x0A]
        @ ''sv_port 8303'' @ [CHR 0x0A]
        @ ''sv_max_clients 16'' @ [CHR 0x0A]
        @ ''sv_gametype '' @ [CHR 0x22] @ ''dm'' @ [CHR 0x22] @ [CHR 0x0A]))"
  using config_file_format [of "dict_get BASIC_CONFIG_SETTINGS ''Teeworlds'' []" "[''X'', ''8303'', ''16'', ''dm'']" Teeworlds]
  by (simp add: BASIC_CONFIG_SETTINGS_def dict_get_def config_setting_def Teeworlds_def)

subsection \<open>Build option customization\<close>

lemma custom_options_unchanged:
  "(\<forall>opt \<in> set opts. \<not> changed opt st) \<Longrightarrow> custom_options_of opts (current_options st) = []"
  by (simp add: custom_options_of_def changed_def Let_def)

lemma same_name_same_option:
  "distinct (map opt_name opts) \<Longrightarrow> a \<in> set opts \<Longrightarrow> b \<in> set opts \<Longrightarrow> opt_name a = opt_name b \<Longrightarrow> a = b"
  by (auto simp: distinct_map dest: inj_onD)

lemma apply_value_other:
  "apply_value a v st = Some st' \<Longrightarrow> k \<noteq> opt_name a \<Longrightarrow> current_options st' k = current_options st k"
  unfolding apply_value_def Let_def
  by (auto split: if_splits)

lemma apply_value_generator:
  "option_type a = ''generator'' \<Longrightarrow> apply_value a v st = Some st' \<Longrightarrow>
     current_options st' (opt_name a) = Some ''ON'' \<or> current_options st' (opt_name a) = Some ''OFF''"
  unfolding apply_value_def Let_def
  by (auto split: if_splits)

lemma apply_value_generators:
  assumes d: "distinct (map opt_name opts)" and mem: "a \<in> set opts"
    and inv: "generators_on_off opts st" and ap: "apply_value a v st = Some st'"
  shows "generators_on_off opts st'"
  unfolding generators_on_off_def
proof (intro ballI impI)
  fix opt assume o: "opt \<in> set opts" and g: "option_type opt = ''generator''"
  show "dict_get (current_options st') (opt_name opt) (current_value opt) \<in> {''ON'', ''OFF''}"
  proof (cases "opt_name opt = opt_name a")
    case True
    then have "opt = a" using same_name_same_option [OF d o mem] by simp
    with g apply_value_generator [OF _ ap] show ?thesis
      by (auto simp: dict_get_def)
  next
    case False
    then have "current_options st' (opt_name opt) = current_options st (opt_name opt)"
      using apply_value_other [OF ap] by simp
    moreover have "dict_get (current_options st) (opt_name opt) (current_value opt) \<in> {''ON'', ''OFF''}"
      using inv o g unfolding generators_on_off_def by blast
    ultimately show ?thesis
      by (simp add: dict_get_def)
  qed
qed

lemma select_by_name_generators:
  "distinct (map opt_name opts) \<Longrightarrow> set sub \<subseteq> set opts \<Longrightarrow> generators_on_off opts st \<Longrightarrow>
     generators_on_off opts (fst (select_by_name sub p v st))"
proof (induction sub)
  case Nil
  then show ?case by simp
next
  case (Cons a sub)
  then have a: "a \<in> set opts" and sub: "set sub \<subseteq> set opts" by auto
  have ih: "generators_on_off opts (fst (select_by_name sub p v st))"
    using Cons.IH [OF Cons.prems(1) sub Cons.prems(3)] .
  show ?case
  proof (cases "opt_name a = p")
    case False
    with ih show ?thesis by simp
  next
    case True
    show ?thesis
    proof (cases "apply_value a v st")
      case None
      with True ih show ?thesis by (cases "select_by_name sub p v st") auto
    next
      case (Some st')
      with True apply_value_generators [OF Cons.prems(1) a Cons.prems(3) Some] show ?thesis by simp
    qed
  qed
qed

lemma select_by_index_generators:
  assumes "distinct (map opt_name opts)" and "generators_on_off opts st"
  shows "generators_on_off opts (fst (select_by_index opts p v st))"
proof (cases "1 \<le> py_int p \<and> py_int p \<le> length opts")
  case False
  with assms show ?thesis by (auto simp: select_by_index_def Let_def)
next
  case True
  then have "py_int p - 1 < length opts" by arith
  then have mem: "opts ! (py_int p - 1) \<in> set opts" by (rule nth_mem)
  show ?thesis
  proof (cases "apply_value (opts ! (py_int p - 1)) v st")
    case None
    with True assms show ?thesis by (simp add: select_by_index_def Let_def)
  next
    case (Some st')
    with True apply_value_generators [OF assms(1) mem assms(2) Some] show ?thesis
      by (simp add: select_by_index_def Let_def)
  qed
qed

lemma ninja_shorthand_generators:
  "generators_on_off opts st \<Longrightarrow>
     generators_on_off opts (st\<lparr>current_options := (current_options st)(''-GNinja'' \<mapsto> ''ON''), use_ninja := True\<rparr>)"
  by (simp add: generators_on_off_def dict_get_def)

lemma process_input_generators:
  assumes d: "distinct (map opt_name opts)" and inv: "generators_on_off opts st"
  shows "generators_on_off opts (fst (process_input opts user_input st))"
proof (cases "CHR ''='' \<in> set user_input")
  case True
  let ?p = "py_strip (fst (split_eq user_input))"
  let ?v = "py_strip (snd (split_eq user_input))"
  have idx: "generators_on_off opts (fst (select_by_index opts ?p ?v st))"
    using select_by_index_generators [OF d inv] .
  have nm: "generators_on_off opts (fst (select_by_name opts ?p ?v st))"
    using select_by_name_generators [OF d subset_refl inv] .
  show ?thesis
  proof (cases "py_isdigit ?p")
    case digit: True
    with True idx show ?thesis
      by (simp add: process_input_def Let_def del: split_eq.simps)
  next
    case digit: False
    with True nm show ?thesis
      by (cases "select_by_name opts ?p ?v st")
         (simp add: process_input_def Let_def del: split_eq.simps)
  qed
next
  case False
  with inv ninja_shorthand_generators [OF inv] show ?thesis
    by (simp add: process_input_def)
qed

lemma customize_loop_generators:
  "distinct (map opt_name opts) \<Longrightarrow> generators_on_off opts st \<Longrightarrow>
     customize_loop opts st stdin = Inr (st', rest) \<Longrightarrow> generators_on_off opts st'"
proof (induction stdin arbitrary: st rule: length_induct)
  case (1 stdin)
  show ?case
  proof (cases stdin)
    case Nil
    with "1.prems" show ?thesis by simp
  next
    case (Cons line rest0)
    show ?thesis
    proof (cases "py_strip line = [] \<or> py_lower (py_strip line) = ''done''")
      case True
      with "1.prems" Cons show ?thesis by (auto simp: Let_def)
    next
      case False
      obtain st1 pauses where p: "process_input opts (py_strip line) st = (st1, pauses)"
        by (cases "process_input opts (py_strip line) st")
      have inv1: "generators_on_off opts st1"
        using process_input_generators [OF "1.prems"(1,2), of "py_strip line"] p by simp
      from False p "1.prems"(3) Cons
      have rec: "customize_loop opts st1 (drop pauses rest0) = Inr (st', rest)"
        by (auto simp: Let_def split: if_splits)
      have "length (drop pauses rest0) < length stdin" using Cons by simp
      with "1.IH" "1.prems"(1) inv1 rec show ?thesis by blast
    qed
  qed
qed


lemma fold_defaults_other:
  "k \<notin> opt_name ` set opts \<Longrightarrow>
     fold (\<lambda>opt d. d(opt_name opt \<mapsto> current_value opt)) opts m k = m k"
  by (induction opts arbitrary: m) auto

lemma fold_defaults_member:
  "distinct (map opt_name opts) \<Longrightarrow> opt \<in> set opts \<Longrightarrow>
     fold (\<lambda>opt d. d(opt_name opt \<mapsto> current_value opt)) opts m (opt_name opt) = Some (current_value opt)"
  by (induction opts arbitrary: m) (auto simp: fold_defaults_other)

lemma initial_options_unchanged:
  "distinct (map opt_name opts) \<Longrightarrow> opt \<in> set opts \<Longrightarrow> \<not> changed opt (initial_options opts)"
  by (simp add: changed_def initial_options_def dict_get_def fold_defaults_member)

lemma initial_options_generators:
  "distinct (map opt_name opts) \<Longrightarrow>
   (\<forall>opt \<in> set opts. option_type opt = ''generator'' \<longrightarrow> current_value opt = ''OFF'') \<Longrightarrow>
   generators_on_off opts (initial_options opts)"
  by (simp add: generators_on_off_def initial_options_def dict_get_def fold_defaults_member)

lemma catalogue_options:
  assumes "AVAILABLE_BUILD_OPTIONS n = Some opts"
  shows "opts \<noteq> []" and "distinct (map opt_name opts)"
    and "\<forall>opt \<in> set opts. option_type opt = ''generator'' \<longrightarrow> current_value opt = ''OFF''"
proof -
  from assms have "opts = Teeworlds_options \<or> opts = DDNet_options \<or> opts = zCatch_options"
    by (auto simp: AVAILABLE_BUILD_OPTIONS_def split: if_splits)
  then show "opts \<noteq> []" and "distinct (map opt_name opts)"
    and "\<forall>opt \<in> set opts. option_type opt = ''generator'' \<longrightarrow> current_value opt = ''OFF''"
    by (auto simp: Teeworlds_options_def DDNet_options_def zCatch_options_def build_option_def)
qed

lemma custom_options_overrides_aux:
  "(\<forall>opt \<in> set xs. option_type opt = ''generator'' \<longrightarrow>
      current_value opt = ''OFF'' \<and>
      dict_get (current_options st) (opt_name opt) (current_value opt) \<in> {''ON'', ''OFF''}) \<Longrightarrow>
   custom_options_of xs (current_options st) = overrides_of xs st"
proof (induction xs)
  case Nil
  then show ?case by (simp add: custom_options_of_def overrides_of_def)
next
  case (Cons a xs)
  have ih: "custom_options_of xs (current_options st) = overrides_of xs st"
  proof (rule Cons.IH)
    show "\<forall>opt \<in> set xs. option_type opt = ''generator'' \<longrightarrow>
      current_value opt = ''OFF'' \<and>
      dict_get (current_options st) (opt_name opt) (current_value opt) \<in> {''ON'', ''OFF''}"
      using Cons.prems by (meson list.set_intros(2))
  qed
  have hd: "custom_options_of [a] (current_options st) = overrides_of [a] st"
    using Cons.prems
    by (auto simp: custom_options_of_def overrides_of_def override_text_def changed_def Let_def)
  have "custom_options_of (a # xs) (current_options st)
          = custom_options_of [a] (current_options st) @ custom_options_of xs (current_options st)"
    by (simp add: custom_options_of_def)
  moreover have "overrides_of (a # xs) st = overrides_of [a] st @ overrides_of xs st"
    by (simp add: overrides_of_def)
  ultimately show ?case using ih hd by simp
qed

lemma custom_options_overrides:
  "generators_on_off opts st \<Longrightarrow>
   (\<forall>opt \<in> set opts. option_type opt = ''generator'' \<longrightarrow> current_value opt = ''OFF'') \<Longrightarrow>
   custom_options_of opts (current_options st) = overrides_of opts st"
  by (rule custom_options_overrides_aux) (auto simp: generators_on_off_def)

lemma overrides_nonempty: "\<exists>opt \<in> set opts. changed opt st \<Longrightarrow> overrides_of opts st \<noteq> []"
  by (auto simp: overrides_of_def filter_empty_conv)

text \<open>
  Claim C7.  If the user declines customization, the result is the mode's default argument
  list, unmodified, and nothing is read.  If the user enters the loop and leaves it (with
  \<^verbatim>\<open>done\<close> or an empty line) while no option is changed from its declared default, the
  result is again that list, once the line that acknowledges the notice has been read (with
  no line left to read, that \<^verbatim>\<open>input()\<close> raises \<open>EOFError\<close>).
\<close>

theorem customize_defaults_kept:
  "customize_build_options selected_mode False stdin0 = Inr ((build_opts selected_mode, False), stdin0)
   \<and> (AVAILABLE_BUILD_OPTIONS (mode_name selected_mode) = Some opts
        \<and> customize_loop opts (initial_options opts) stdin = Inr (st, rest)
        \<and> (\<forall>opt \<in> set opts. \<not> changed opt st)
      \<longrightarrow> customize_build_options selected_mode True stdin =
            (case rest of [] \<Rightarrow> Inl EOFError
             | _ # rest' \<Rightarrow> Inr ((build_opts selected_mode, False), rest')))"
proof (intro conjI impI)
  show "customize_build_options selected_mode False stdin0 = Inr ((build_opts selected_mode, False), stdin0)"
    by (simp add: customize_build_options_def)
next
  assume a: "AVAILABLE_BUILD_OPTIONS (mode_name selected_mode) = Some opts
      \<and> customize_loop opts (initial_options opts) stdin = Inr (st, rest)
      \<and> (\<forall>opt \<in> set opts. \<not> changed opt st)"
  then have none: "custom_options_of opts (current_options st) = []"
    using custom_options_unchanged [of opts st] by blast
  from a catalogue_options(1) [of "mode_name selected_mode" opts] have ne: "opts \<noteq> []"
    by blast
  from a ne none show "customize_build_options selected_mode True stdin =
            (case rest of [] \<Rightarrow> Inl EOFError
             | _ # rest' \<Rightarrow> Inr ((build_opts selected_mode, False), rest'))"
    by (simp add: customize_build_options_def finish_customization_def dict_get_def wait_enter_def
          split: list.splits)
qed

text \<open>
  Claim C3, amended.  When the loop is left with at least one option changed from its
  declared default, the result is \<^verbatim>\<open>cmake ../source/\<close>, then for every changed option, in the
  declared order, the flag (generator kind, which is then ON) or \<^verbatim>\<open>flag=value\<close> (other
  kinds), then \<^verbatim>\<open>-DCLIENT=OFF\<close> unless one of these overrides contains \<^verbatim>\<open>-DCLIENT\<close>, then
  \<^verbatim>\<open>-DSERVER=ON\<close> unless one of them contains \<^verbatim>\<open>-DSERVER\<close>.
\<close>

theorem customize_rebuilt_args:
  assumes avail: "AVAILABLE_BUILD_OPTIONS (mode_name selected_mode) = Some opts"
    and loop: "customize_loop opts (initial_options opts) stdin = Inr (st, rest)"
    and ch: "\<exists>opt \<in> set opts. changed opt st"
  shows "customize_build_options selected_mode True stdin =
     Inr (([''cmake'', ''../source/''] @ overrides_of opts st
           @ (if list_ex (py_contains ''-DCLIENT'') (overrides_of opts st) then [] else [''-DCLIENT=OFF''])
           @ (if list_ex (py_contains ''-DSERVER'') (overrides_of opts st) then [] else [''-DSERVER=ON'']),
          use_ninja st), rest)"
proof -
  note cat = catalogue_options [OF avail]
  have inv: "generators_on_off opts st"
    using customize_loop_generators [OF cat(2) initial_options_generators [OF cat(2,3)] loop] .
  have co: "custom_options_of opts (current_options st) = overrides_of opts st"
    using custom_options_overrides [OF inv cat(3)] .
  have fin: "finish_customization selected_mode opts st rest =
     Inr (([''cmake'', ''../source/''] @ overrides_of opts st
           @ (if list_ex (py_contains ''-DCLIENT'') (overrides_of opts st) then [] else [''-DCLIENT=OFF''])
           @ (if list_ex (py_contains ''-DSERVER'') (overrides_of opts st) then [] else [''-DSERVER=ON'']),
          use_ninja st), rest)"
    unfolding finish_customization_def co Let_def
    using overrides_nonempty [OF ch] by simp
  show ?thesis
    using cat(1) by (simp add: customize_build_options_def dict_get_def avail loop fin)
qed


lemma teeworlds_available: "AVAILABLE_BUILD_OPTIONS (mode_name Teeworlds) = Some Teeworlds_options"
  by (simp add: AVAILABLE_BUILD_OPTIONS_def Teeworlds_def)

theorem customize_defaults_kept_witness:
  "customize_build_options Teeworlds True [''done'', []] =
      Inr (([''cmake'', ''../source/'', ''-DCLIENT=OFF'', ''-DSERVER=ON''], False), [])"
proof -
  have loop: "customize_loop Teeworlds_options (initial_options Teeworlds_options) [''done'', []]
                = Inr (initial_options Teeworlds_options, [[]])"
    by (simp add: py_strip_def py_isspace_def py_lower_def lower_char_def)
  have same: "\<forall>opt \<in> set Teeworlds_options. \<not> changed opt (initial_options Teeworlds_options)"
    using initial_options_unchanged [OF catalogue_options(2) [OF teeworlds_available]] by blast
  show ?thesis
    using customize_defaults_kept [of Teeworlds "[]" Teeworlds_options "[''done'', []]"
        "initial_options Teeworlds_options" "[[]]"] teeworlds_available loop same
    by (simp add: Teeworlds_def)
qed

theorem customize_rebuilt_args_witness:
  "customize_build_options Teeworlds True [''-DTOOLS=ON'', ''done''] =
      Inr (([''cmake'', ''../source/'', ''-DTOOLS=ON'', ''-DCLIENT=OFF'', ''-DSERVER=ON''], False), [])"
proof -
  let ?st = "(initial_options Teeworlds_options)
               \<lparr>current_options := (current_options (initial_options Teeworlds_options))(''-DTOOLS'' \<mapsto> ''ON'')\<rparr>"
  have loop: "customize_loop Teeworlds_options (initial_options Teeworlds_options) [''-DTOOLS=ON'', ''done'']
                = Inr (?st, [])"
    by (simp add: py_strip_def py_isspace_def py_lower_def lower_char_def process_input_def
          py_isdigit_def digit_char_def Teeworlds_options_def build_option_def apply_value_def
          py_upper_def upper_char_def truthy_tokens_def boolean_tokens_def Let_def)
  have ch: "\<exists>opt \<in> set Teeworlds_options. changed opt ?st"
    by (simp add: Teeworlds_options_def build_option_def changed_def dict_get_def)
  have ov: "overrides_of Teeworlds_options ?st = [''-DTOOLS=ON'']"
    by (simp add: overrides_of_def override_text_def Teeworlds_options_def build_option_def changed_def
          dict_get_def initial_options_def)
  have nin: "use_ninja ?st = False"
    by (simp add: initial_options_def)
  show ?thesis
    using customize_rebuilt_args [OF teeworlds_available loop ch]
    unfolding ov nin by simp
qed

text \<open>
  Claim C3 as stated fails: after \<^verbatim>\<open>-DTOOLS=ON\<close> the result does not begin with the default
  argument list of the mode, so it is not that list with arguments appended.
\<close>

theorem customize_rebuilt_args_counterexample:
  "customize_build_options Teeworlds True [''-DTOOLS=ON'', ''done''] =
      Inr (([''cmake'', ''../source/'', ''-DTOOLS=ON'', ''-DCLIENT=OFF'', ''-DSERVER=ON''], False), [])
   \<and> build_opts Teeworlds = [''cmake'', ''../source/'', ''-DCLIENT=OFF'', ''-DSERVER=ON'']
   \<and> take (length (build_opts Teeworlds))
        [''cmake'', ''../source/'', ''-DTOOLS=ON'', ''-DCLIENT=OFF'', ''-DSERVER=ON''] \<noteq> build_opts Teeworlds"
proof -
  have "customize_build_options Teeworlds True [''-DTOOLS=ON'', ''done''] =
      Inr (([''cmake'', ''../source/'', ''-DTOOLS=ON'', ''-DCLIENT=OFF'', ''-DSERVER=ON''], False), [])"
    by code_simp
  then show ?thesis by (simp add: Teeworlds_def)
qed

lemma lower_upper_char: "lower_char (upper_char c) = lower_char c"
  by (auto simp: lower_char_def upper_char_def Let_def)

lemma upper_lower_char: "upper_char (lower_char c) = upper_char c"
  by (auto simp: lower_char_def upper_char_def Let_def)

lemma py_lower_upper: "py_lower (py_upper v) = py_lower v"
  by (simp add: py_lower_def py_upper_def lower_upper_char)

lemma py_upper_lower: "py_upper (py_lower v) = py_upper v"
  by (simp add: py_lower_def py_upper_def upper_lower_char)

lemma upper_eq_token: "py_upper t = t \<Longrightarrow> (py_upper v = t) = (py_lower v = py_lower t)"
  by (metis py_lower_upper py_upper_lower)

lemma truthy_ci: "(py_upper v \<in> set truthy_tokens) = ci_member v [''ON'', ''YES'', ''TRUE'', ''1'']"
proof -
  have u: "py_upper ''ON'' = ''ON''" "py_upper ''YES'' = ''YES''" "py_upper ''TRUE'' = ''TRUE''"
    "py_upper ''1'' = ''1''"
    by (simp_all add: py_upper_def upper_char_def)
  show ?thesis
    unfolding truthy_tokens_def ci_member_def
    by (simp add: upper_eq_token [OF u(1)] upper_eq_token [OF u(2)] upper_eq_token [OF u(3)]
          upper_eq_token [OF u(4)])
qed

lemma falsy_ci:
  "(py_upper v \<in> set [''OFF'', ''NO'', ''FALSE'', ''0'']) = ci_member v [''OFF'', ''NO'', ''FALSE'', ''0'']"
proof -
  have u: "py_upper ''OFF'' = ''OFF''" "py_upper ''NO'' = ''NO''" "py_upper ''FALSE'' = ''FALSE''"
    "py_upper ''0'' = ''0''"
    by (simp_all add: py_upper_def upper_char_def)
  show ?thesis
    unfolding ci_member_def
    by (simp add: upper_eq_token [OF u(1)] upper_eq_token [OF u(2)] upper_eq_token [OF u(3)]
          upper_eq_token [OF u(4)])
qed

lemma boolean_tokens_split:
  "(x \<in> set boolean_tokens) = (x \<in> set truthy_tokens \<or> x \<in> set [''OFF'', ''NO'', ''FALSE'', ''0''])"
  by (auto simp: boolean_tokens_def truthy_tokens_def)

lemma truthy_not_falsy:
  "x \<in> set truthy_tokens \<Longrightarrow> x \<notin> set [''OFF'', ''NO'', ''FALSE'', ''0'']"
  by (auto simp: truthy_tokens_def)

lemma apply_value_boolean:
  assumes "option_type opt = ''boolean''"
  shows "apply_value opt v st =
     (if ci_member v [''ON'', ''YES'', ''TRUE'', ''1''] then
        Some (st\<lparr>current_options := (current_options st)(opt_name opt \<mapsto> ''ON'')\<rparr>)
      else if ci_member v [''OFF'', ''NO'', ''FALSE'', ''0''] then
        Some (st\<lparr>current_options := (current_options st)(opt_name opt \<mapsto> ''OFF'')\<rparr>)
      else None)"
  unfolding apply_value_def Let_def boolean_tokens_split truthy_ci falsy_ci
  using assms by simp

lemma select_by_name_no_match:
  "p \<notin> opt_name ` set xs \<Longrightarrow> select_by_name xs p v st = (st, 0, False)"
  by (induction xs) auto

lemma select_by_name_find:
  "distinct (map opt_name opts) \<Longrightarrow> find (\<lambda>b. opt_name b = p) opts = Some opt \<Longrightarrow>
     select_by_name opts p v st =
       (case apply_value opt v st of None \<Rightarrow> (st, 1, True) | Some st' \<Rightarrow> (st', 0, True))"
proof (induction opts)
  case Nil
  then show ?case by simp
next
  case (Cons a opts)
  show ?case
  proof (cases "opt_name a = p")
    case True
    with Cons.prems have a: "opt = a" and fresh: "p \<notin> opt_name ` set opts" by auto
    show ?thesis
      using True a select_by_name_no_match [OF fresh, of v st]
      by (simp split: option.splits)
  next
    case False
    with Cons show ?thesis by simp
  qed
qed

lemma process_input_selected:
  assumes eq: "CHR ''='' \<in> set user_input"
    and sel: "selects opts (py_strip (fst (split_eq user_input))) opt"
    and d: "distinct (map opt_name opts)"
  shows "process_input opts user_input st =
     (case apply_value opt (py_strip (snd (split_eq user_input))) st of
        None \<Rightarrow> (st, 1) | Some st' \<Rightarrow> (st', 0))"
proof (cases "py_isdigit (py_strip (fst (split_eq user_input)))")
  case True
  with sel eq show ?thesis
    by (simp add: process_input_def selects_def select_by_index_def Let_def del: split_eq.simps)
next
  case False
  with sel have f: "find (\<lambda>b. opt_name b = py_strip (fst (split_eq user_input))) opts = Some opt"
    by (simp add: selects_def del: split_eq.simps)
  show ?thesis
    using eq False select_by_name_find [OF d f, of "py_strip (snd (split_eq user_input))" st]
    by (simp add: process_input_def Let_def split: option.splits del: split_eq.simps)
qed

text \<open>
  Claim C6.  In one pass of the loop, let the input contain \<^verbatim>\<open>=\<close> and let its first part
  select a boolean option, by its number or by its name, among options of distinct names
  (as the options of every mode are).  A value that is one of ON, YES,
  TRUE, 1 up to case stores ON for the option; one of OFF, NO, FALSE, 0 up to case stores
  OFF; any other value leaves the state as it was, and the pass waits for Enter once.
\<close>

theorem boolean_option_input:
  assumes eq: "CHR ''='' \<in> set user_input"
    and sel: "selects opts (py_strip (fst (split_eq user_input))) opt"
    and d: "distinct (map opt_name opts)"
    and b: "option_type opt = ''boolean''"
    and v: "v = py_strip (snd (split_eq user_input))"
  shows "(ci_member v [''ON'', ''YES'', ''TRUE'', ''1''] \<longrightarrow>
            process_input opts user_input st =
              (st\<lparr>current_options := (current_options st)(opt_name opt \<mapsto> ''ON'')\<rparr>, 0))
       \<and> (ci_member v [''OFF'', ''NO'', ''FALSE'', ''0''] \<longrightarrow>
            process_input opts user_input st =
              (st\<lparr>current_options := (current_options st)(opt_name opt \<mapsto> ''OFF'')\<rparr>, 0))
       \<and> (\<not> ci_member v [''ON'', ''YES'', ''TRUE'', ''1'', ''OFF'', ''NO'', ''FALSE'', ''0''] \<longrightarrow>
            process_input opts user_input st = (st, 1))"
proof -
  have excl: "ci_member v [''OFF'', ''NO'', ''FALSE'', ''0''] \<Longrightarrow> \<not> ci_member v [''ON'', ''YES'', ''TRUE'', ''1'']"
    using truthy_not_falsy [of "py_upper v"] by (simp only: truthy_ci falsy_ci) blast
  have all: "ci_member v [''ON'', ''YES'', ''TRUE'', ''1'', ''OFF'', ''NO'', ''FALSE'', ''0''] =
      (ci_member v [''ON'', ''YES'', ''TRUE'', ''1''] \<or> ci_member v [''OFF'', ''NO'', ''FALSE'', ''0''])"
    by (auto simp: ci_member_def)
  show ?thesis
    unfolding process_input_selected [OF eq sel d] v [symmetric] apply_value_boolean [OF b] all
    using excl by auto
qed


theorem boolean_option_input_witness:
  "process_input Teeworlds_options ''4=yes'' (initial_options Teeworlds_options) =
     ((initial_options Teeworlds_options)
        \<lparr>current_options := (current_options (initial_options Teeworlds_options))(''-DTOOLS'' \<mapsto> ''ON'')\<rparr>, 0)
   \<and> process_input Teeworlds_options ''-DTOOLS=maybe'' (initial_options Teeworlds_options) =
     (initial_options Teeworlds_options, 1)"
proof -
  let ?tools = "build_option ''-DTOOLS'' ''Build tools'' ''OFF'' ''boolean''"
  have d: "distinct (map opt_name Teeworlds_options)"
    by (simp add: Teeworlds_options_def build_option_def)
  have b: "option_type ?tools = ''boolean''"
    by (simp add: build_option_def)
  have eq1: "CHR ''='' \<in> set ''4=yes''" by simp
  have sel1: "selects Teeworlds_options (py_strip (fst (split_eq ''4=yes''))) ?tools"
    by (simp add: selects_def py_strip_def py_isspace_def py_isdigit_def digit_char_def py_int_def
          Teeworlds_options_def)
  have v1: "''yes'' = py_strip (snd (split_eq ''4=yes''))"
    by (simp add: py_strip_def py_isspace_def)
  have ci1: "ci_member ''yes'' [''ON'', ''YES'', ''TRUE'', ''1'']"
    by code_simp
  have eq2: "CHR ''='' \<in> set ''-DTOOLS=maybe''" by simp
  have sel2: "selects Teeworlds_options (py_strip (fst (split_eq ''-DTOOLS=maybe''))) ?tools"
    by (simp add: selects_def py_strip_def py_isspace_def py_isdigit_def digit_char_def
          Teeworlds_options_def build_option_def)
  have v2: "''maybe'' = py_strip (snd (split_eq ''-DTOOLS=maybe''))"
    by (simp add: py_strip_def py_isspace_def)
  have ci2: "\<not> ci_member ''maybe'' [''ON'', ''YES'', ''TRUE'', ''1'', ''OFF'', ''NO'', ''FALSE'', ''0'']"
    by code_simp
  from boolean_option_input [OF eq1 sel1 d b v1, of "initial_options Teeworlds_options"] ci1
  have one: "process_input Teeworlds_options ''4=yes'' (initial_options Teeworlds_options) =
     ((initial_options Teeworlds_options)
        \<lparr>current_options := (current_options (initial_options Teeworlds_options))(''-DTOOLS'' \<mapsto> ''ON'')\<rparr>, 0)"
    by (simp add: build_option_def)
  from boolean_option_input [OF eq2 sel2 d b v2, of "initial_options Teeworlds_options"] ci2
  have two: "process_input Teeworlds_options ''-DTOOLS=maybe'' (initial_options Teeworlds_options) =
     (initial_options Teeworlds_options, 1)"
    by blast
  from one two show ?thesis by blast
qed

end
